theory Spec2Isabelle
  imports Complex_Main "HOL-Library.AList"
begin

section \<open>Values of the JavaScript program\<close>

text \<open>
  The server in \<^verbatim>\<open>server.js\<close> keeps one JSON document in a file, answers reads
  of it and rewrites the whole file on every change. The values it handles are JSON
  values; the only values outside JSON that it ever stores in the document are the
  \<^verbatim>\<open>NaN\<close> that \<^verbatim>\<open>parseInt\<close> returns and the infinities of a request
  body, which \<^verbatim>\<open>JSON.stringify\<close> writes as \<^verbatim>\<open>null\<close>.

  A number is finite, or \<^verbatim>\<open>NaN\<close>, or one of the two infinities (which
  \<^verbatim>\<open>JSON.parse\<close> returns for a literal such as \<^verbatim>\<open>1e999\<close>). A finite
  double is a rational number, and the finite numbers of the model are the rationals:
  every double is among them, and truthiness, comparison and serialisation are exact on
  them. \<^verbatim>\<open>-0\<close> is \<open>Fin 0\<close>, which is how it tests and prints.
  Strings are byte strings in UTF-8, as the source file and the data file are. An
  object is the list of its own properties in their order.
\<close>

datatype jsnum = Fin rat | NaN | PosInf | NegInf

datatype json =
    JNull
  | JBool bool
  | JNum jsnum
  | JStr string
  | JArr "json list"
  | JObj "(string \<times> json) list"

text \<open>
  What an expression of the program can evaluate to when it reads a property:
  \<^verbatim>\<open>undefined\<close>, a JSON value, or a member inherited from
  \<^verbatim>\<open>Object.prototype\<close> (a function, or the prototype object itself for
  \<^verbatim>\<open>__proto__\<close>), named by its key.
\<close>

datatype jsval = Undefined | Val json | ProtoMember string

text \<open>The outcomes that are not a normal reply: the three HTTP errors the handlers send
  themselves (404, 401, 400), and the two kinds of exception they let escape.\<close>

datatype error =
    NotFound
  | Unauthorized
  | BadRequest
  | TypeError
  | UnlinkFailed

text \<open>\<^verbatim>\<open>!v\<close>: the falsy values.\<close>

fun falsy :: "json \<Rightarrow> bool" where
  "falsy JNull = True"
| "falsy (JBool b) = (\<not> b)"
| "falsy (JNum n) = (case n of Fin q \<Rightarrow> q = 0 | NaN \<Rightarrow> True | PosInf \<Rightarrow> False | NegInf \<Rightarrow> False)"
| "falsy (JStr s) = (s = [])"
| "falsy (JArr xs) = False"
| "falsy (JObj kvs) = False"

fun falsy_val :: "jsval \<Rightarrow> bool" where
  "falsy_val Undefined = True"
| "falsy_val (Val v) = falsy v"
| "falsy_val (ProtoMember m) = False"

text \<open>\<^verbatim>\<open>a || b\<close>.\<close>

definition js_or :: "jsval \<Rightarrow> jsval \<Rightarrow> jsval" where
  "js_or a b = (if falsy_val a then b else a)"

text \<open>
  \<^verbatim>\<open>JSON.parse(JSON.stringify(v))\<close>: the value a reader of the written text
  gets back. \<^verbatim>\<open>NaN\<close> and the infinities are written as \<^verbatim>\<open>null\<close>;
  everything else is kept.
\<close>

primrec to_wire :: "json \<Rightarrow> json" where
  "to_wire JNull = JNull"
| "to_wire (JBool b) = JBool b"
| "to_wire (JNum n) =
    (case n of Fin q \<Rightarrow> JNum (Fin q) | NaN \<Rightarrow> JNull | PosInf \<Rightarrow> JNull | NegInf \<Rightarrow> JNull)"
| "to_wire (JStr s) = JStr s"
| "to_wire (JArr xs) = JArr (map to_wire xs)"
| "to_wire (JObj kvs) = JObj (map (map_prod id to_wire) kvs)"

definition wire_obj :: "(string \<times> json) list \<Rightarrow> (string \<times> json) list" where
  "wire_obj kvs = map (map_prod id to_wire) kvs"

text \<open>
  The keys of \<^verbatim>\<open>Object.prototype\<close> (ECMAScript, with Annex B), which every object
  made by \<^verbatim>\<open>JSON.parse\<close> or by an object literal inherits.
\<close>

definition object_prototype_keys :: "string list" where
  "object_prototype_keys =
    [''constructor'', ''__defineGetter__'', ''__defineSetter__'', ''hasOwnProperty'',
     ''__lookupGetter__'', ''__lookupSetter__'', ''isPrototypeOf'',
     ''propertyIsEnumerable'', ''toString'', ''valueOf'', ''__proto__'',
     ''toLocaleString'']"

text \<open>\<^verbatim>\<open>obj[name]\<close> on an object: its own property, else the inherited one.\<close>

definition get_property :: "(string \<times> json) list \<Rightarrow> string \<Rightarrow> jsval" where
  "get_property kvs name =
    (case map_of kvs name of
       Some v \<Rightarrow> Val v
     | None \<Rightarrow> if name \<in> set object_prototype_keys then ProtoMember name else Undefined)"

text \<open>\<^verbatim>\<open>Object.prototype.hasOwnProperty.call(obj, name)\<close>.\<close>

definition hasOwnProperty :: "(string \<times> json) list \<Rightarrow> string \<Rightarrow> bool" where
  "hasOwnProperty kvs name = (map_of kvs name \<noteq> None)"

section \<open>The admin key\<close>

text \<open>
  \<^verbatim>\<open>const ADMIN_KEY = process.env.ADMIN_KEY || "change-me"\<close>: the environment
  variable is unset (\<open>None\<close>) or a string; an empty string is falsy.
\<close>

definition ADMIN_KEY :: "string option \<Rightarrow> string" where
  "ADMIN_KEY env =
    (case env of None \<Rightarrow> ''change-me'' | Some s \<Rightarrow> if s = [] then ''change-me'' else s)"

text \<open>\<^verbatim>\<open>key !== ADMIN_KEY\<close> is false exactly for the string with the same text.\<close>

definition strict_eq_str :: "jsval \<Rightarrow> string \<Rightarrow> bool" where
  "strict_eq_str v s = (v = Val (JStr s))"

text \<open>The test of \<^verbatim>\<open>requireAdminKey\<close> on the key it has read:
  \<^verbatim>\<open>if (!key || key !== ADMIN_KEY) 401 else next()\<close>.\<close>

definition authorize :: "string option \<Rightarrow> jsval \<Rightarrow> bool" where
  "authorize env key = (\<not> (falsy_val key \<or> \<not> strict_eq_str key (ADMIN_KEY env)))"

text \<open>The three places the key is read from:
  \<^verbatim>\<open>req.headers["x-admin-key"] || req.query.adminKey || req.body.adminKey\<close>.\<close>

record credentials =
  header_key :: jsval
  query_key :: jsval
  body_key :: jsval

definition requireAdminKey :: "string option \<Rightarrow> credentials \<Rightarrow> error + unit" where
  "requireAdminKey env req =
    (let key = js_or (js_or (header_key req) (query_key req)) (body_key req)
     in if authorize env key then Inr () else Inl Unauthorized)"


section \<open>The document and the state of the process\<close>

text \<open>
  \<^verbatim>\<open>defaultContent\<close>, as the source declares it. Two characters of its strings are
  outside ASCII and are written as their UTF-8 bytes.
\<close>

definition en_dash :: string where
  "en_dash = [CHR 0xE2, CHR 0x80, CHR 0x93]"

definition right_quote :: string where
  "right_quote = [CHR 0xE2, CHR 0x80, CHR 0x99]"

definition default_about :: json where
  "default_about = JObj
    [(''tagline'', JStr ''Professional tagline''),
     (''headline'', JStr ''Bold, unapologetic and unforgettable.''),
     (''intro'', JStr ''Use this area for a concise intro blurb. Explain who you are, what you offer, and why clients should want to work with you.''),
     (''paragraphs'', JArr
        [JStr ''Use this section to tell your story in a little more depth.'',
         JStr ''Mention your personality, boundaries, strengths, and how you want clients to feel.'']),
     (''meta'', JObj
        [(''baseCity'', JStr ''Your City, ST''),
         (''bookingStyle'', JStr ''Pre-booked only''),
         (''sessionLength'', JStr (''1'' @ en_dash @ ''4 hours (longer by request)'')),
         (''note'', JStr ''Screening required for new clients'')]),
     (''tags'', JArr
        [JStr ''Blunt but kind'', JStr ''Low drama'', JStr ''Straightforward'',
         JStr ''Respect is non-negotiable''])]"

definition default_services :: json where
  "default_services = JArr
    [JObj
       [(''id'', JStr ''standard''),
        (''name'', JStr ''Standard session''),
        (''duration'', JStr ''60 minutes''),
        (''rate'', JStr ''$XXX''),
        (''description'', JStr (''Brief description of what'' @ right_quote @ ''s included in a standard session: your energy, boundaries, and expectations.''))],
     JObj
       [(''id'', JStr ''extended''),
        (''name'', JStr ''Extended session''),
        (''duration'', JStr (''90'' @ en_dash @ ''120 minutes'')),
        (''rate'', JStr (''$XXX'' @ en_dash @ ''$XXX'')),
        (''description'', JStr ''Longer time together, slower pace, and space to actually relax.'')],
     JObj
       [(''id'', JStr ''evening''),
        (''name'', JStr ''Evening / long-form booking''),
        (''duration'', JStr ''3+ hours''),
        (''rate'', JStr ''Custom''),
        (''description'', JStr ''Dinner, events, or longer experiences. Outline your minimum, typical structure, and any special considerations.'')]]"

definition default_availability :: json where
  "default_availability = JObj
    [(''weekly'', JArr
        [JObj [(''label'', JStr (''Mon '' @ en_dash @ '' Thu'')), (''time'', JStr ''Evenings only''),
               (''status'', JStr ''limited'')],
         JObj [(''label'', JStr (''Fri '' @ en_dash @ '' Sat'')), (''time'', JStr ''Afternoon & evening''),
               (''status'', JStr ''open'')],
         JObj [(''label'', JStr ''Sunday''), (''time'', JStr ''By special request''),
               (''status'', JStr ''unavailable'')]]),
     (''note'', JStr ''This is just a visual guide. Confirmed times are always shared privately after screening.''),
     (''instructions'', JStr ''Example: For safety and boundaries, I do not meet same-day requests from new clients.'')]"

definition default_contact :: json where
  "default_contact = JObj
    [(''email'', JStr ''youremail@example.com''),
     (''preferredFirstContact'', JStr ''Email with basic screening info. No explicit or graphic messages.''),
     (''responseTime'', JStr (''Within 24'' @ en_dash @ ''48 hours for respectful, complete inquiries.''))]"

definition defaultContent :: "(string \<times> json) list" where
  "defaultContent =
    [(''about'', default_about),
     (''services'', default_services),
     (''availability'', default_availability),
     (''photos'', JArr []),
     (''contact'', default_contact)]"

text \<open>
  The data file \<^verbatim>\<open>DATA_FILE\<close> is missing, or holds text that
  \<^verbatim>\<open>JSON.parse\<close> rejects, or holds the text \<^verbatim>\<open>JSON.stringify(d)\<close> of
  an object \<open>d\<close> (the document, a mapping from section names to values). Every text
  that parses to an object is such a text, up to its layout; a file whose text parses to
  another kind of JSON value is not a document and is not modelled. Parsing the text of
  \<open>d\<close> gives \<open>wire_obj d\<close>.
\<close>

datatype file_state =
    Missing
  | Garbage string
  | Document "(string \<times> json) list"

text \<open>A file of the uploads directory can be unlinked, or \<^verbatim>\<open>fs.unlinkSync\<close> throws on
  it (no permission, a directory, a busy file).\<close>

datatype upload = Removable | Stuck

text \<open>
  The state the handlers share: the data file, the object \<^verbatim>\<open>defaultContent\<close>
  held in memory by the process (an ordinary mutable object), and the uploads directory,
  keyed by the name that \<^verbatim>\<open>path.join(UPLOADS_DIR, id)\<close> gives a photo id.
\<close>

record state =
  data_file :: file_state
  defaults :: "(string \<times> json) list"
  uploads :: "(string \<times> upload) list"

text \<open>The process as it starts with no data file and an empty uploads directory.\<close>

definition initial_state :: state where
  "initial_state = \<lparr>data_file = Missing, defaults = defaultContent, uploads = []\<rparr>"

definition writeContent :: "(string \<times> json) list \<Rightarrow> state \<Rightarrow> state" where
  "writeContent content st = st\<lparr>data_file := Document content\<rparr>"

text \<open>
  \<^verbatim>\<open>readContent\<close> returns the new state, the object read, and whether that object
  is \<^verbatim>\<open>defaultContent\<close> itself: the source returns the object, not a copy of it,
  when the file is missing or does not parse.
\<close>

definition readContent :: "state \<Rightarrow> state \<times> (string \<times> json) list \<times> bool" where
  "readContent st =
    (case data_file st of
       Missing \<Rightarrow> (st\<lparr>data_file := Document (defaults st)\<rparr>, defaults st, True)
     | Garbage raw \<Rightarrow> (st\<lparr>data_file := Document (defaults st)\<rparr>, defaults st, True)
     | Document d \<Rightarrow> (st, wire_obj d, False))"

text \<open>
  A handler that changes the object it got from \<^verbatim>\<open>readContent\<close> into
  \<open>content\<close> changes \<^verbatim>\<open>defaultContent\<close> when the two are the same object.
\<close>

definition mutate :: "bool \<Rightarrow> (string \<times> json) list \<Rightarrow> state \<Rightarrow> state" where
  "mutate shared content st = (if shared then st\<lparr>defaults := content\<rparr> else st)"

section \<open>Sections\<close>

text \<open>\<^verbatim>\<open>GET /api/content\<close>: the reply is the document, serialised.\<close>

definition load :: "state \<Rightarrow> state \<times> json" where
  "load st = (case readContent st of (st1, content, shared) \<Rightarrow> (st1, to_wire (JObj content)))"

text \<open>The current document: the object a load replies with.\<close>

definition current_document :: "state \<Rightarrow> (string \<times> json) list" where
  "current_document st = wire_obj (fst (snd (readContent st)))"

fun wire_val :: "jsval \<Rightarrow> jsval" where
  "wire_val (Val v) = Val (to_wire v)"
| "wire_val v = v"

text \<open>\<^verbatim>\<open>GET /api/content/:section\<close>. The reply is what \<^verbatim>\<open>res.json\<close> is given.\<close>

definition getSection :: "state \<Rightarrow> string \<Rightarrow> state \<times> (error + jsval)" where
  "getSection st name =
    (case readContent st of (st1, content, shared) \<Rightarrow>
       let section = get_property content name
       in if falsy_val section then (st1, Inl NotFound)
          else (st1, Inr (wire_val section)))"

text \<open>\<^verbatim>\<open>PUT /api/content/:section\<close>, past \<^verbatim>\<open>requireAdminKey\<close>.\<close>

definition replaceSection :: "state \<Rightarrow> string \<Rightarrow> json \<Rightarrow> state \<times> (error + json)" where
  "replaceSection st section body =
    (case readContent st of (st1, content, shared) \<Rightarrow>
       if \<not> hasOwnProperty content section then (st1, Inl NotFound)
       else
         let content' = AList.update section body content
         in (writeContent content' (mutate shared content' st1),
             Inr (to_wire (JObj [(''status'', JStr ''ok''), (''section'', body)]))))"

section \<open>Photos\<close>

text \<open>\<^verbatim>\<open>GET /api/photos\<close>: \<^verbatim>\<open>res.json(content.photos || [])\<close>.\<close>

definition listPhotos :: "state \<Rightarrow> state \<times> jsval" where
  "listPhotos st =
    (case readContent st of (st1, content, shared) \<Rightarrow>
       (st1, wire_val (js_or (get_property content ''photos'') (Val (JArr [])))))"

text \<open>
  The callback of \<^verbatim>\<open>findIndex\<close>, \<^verbatim>\<open>(p) => p.id === id\<close>. Reading a
  property of \<^verbatim>\<open>null\<close> throws; a boolean, a number, a string and an array have
  no property \<^verbatim>\<open>id\<close>.
\<close>

fun id_matches :: "json \<Rightarrow> string \<Rightarrow> error + bool" where
  "id_matches JNull i = Inl TypeError"
| "id_matches (JObj kvs) i = Inr (strict_eq_str (get_property kvs ''id'') i)"
| "id_matches p i = Inr False"

text \<open>\<^verbatim>\<open>photos.findIndex((p) => p.id === id)\<close>: the first index whose element
  matches (\<open>None\<close> for \<^verbatim>\<open>-1\<close>); elements after it are not visited.\<close>

fun findIndex :: "json list \<Rightarrow> string \<Rightarrow> error + nat option" where
  "findIndex [] i = Inr None"
| "findIndex (p # ps) i =
    (case id_matches p i of
       Inl e \<Rightarrow> Inl e
     | Inr True \<Rightarrow> Inr (Some 0)
     | Inr False \<Rightarrow>
         (case findIndex ps i of
            Inl e \<Rightarrow> Inl e
          | Inr None \<Rightarrow> Inr None
          | Inr (Some k) \<Rightarrow> Inr (Some (Suc k))))"

text \<open>\<^verbatim>\<open>photos.splice(index, 1)\<close>.\<close>

definition splice1 :: "nat \<Rightarrow> 'a list \<Rightarrow> 'a list" where
  "splice1 k xs = take k xs @ drop (Suc k) xs"

text \<open>
  \<^verbatim>\<open>DELETE /api/photos/:id\<close>, past \<^verbatim>\<open>requireAdminKey\<close>. Calling
  \<^verbatim>\<open>findIndex\<close> on anything but an array throws (\<^verbatim>\<open>undefined\<close> and
  \<^verbatim>\<open>null\<close> have no properties, and no other JSON value has a function of that
  name). The file to delete is named by the id of the photo found, which is the id asked
  for. A file that is absent is skipped; \<^verbatim>\<open>fs.unlinkSync\<close> is not guarded.
\<close>

definition removePhoto :: "state \<Rightarrow> string \<Rightarrow> state \<times> (error + json)" where
  "removePhoto st i =
    (case readContent st of (st1, content, shared) \<Rightarrow>
       (case get_property content ''photos'' of
          Val (JArr photos) \<Rightarrow>
            (case findIndex photos i of
               Inl e \<Rightarrow> (st1, Inl e)
             | Inr None \<Rightarrow> (st1, Inl NotFound)
             | Inr (Some index) \<Rightarrow>
                 (case map_of (uploads st1) i of
                    Some Stuck \<Rightarrow> (st1, Inl UnlinkFailed)
                  | _ \<Rightarrow>
                      let st2 = st1\<lparr>uploads := AList.delete i (uploads st1)\<rparr>;
                          content' = AList.update ''photos'' (JArr (splice1 index photos)) content
                      in (writeContent content' (mutate shared content' st2),
                          Inr (JObj [(''status'', JStr ''ok'')]))))
        | _ \<Rightarrow> (st1, Inl TypeError)))"

subsection \<open>\<^verbatim>\<open>parseInt(s, 10)\<close>\<close>

text \<open>The white space and line terminators of ECMAScript, in UTF-8.\<close>

definition white_space :: "nat list list" where
  "white_space =
    [[0x09], [0x0A], [0x0B], [0x0C], [0x0D], [0x20], [0xC2, 0xA0], [0xE1, 0x9A, 0x80]]
    @ map (\<lambda>d. [0xE2, 0x80, d]) [0x80 ..< 0x8B]
    @ [[0xE2, 0x80, 0xA8], [0xE2, 0x80, 0xA9], [0xE2, 0x80, 0xAF], [0xE2, 0x81, 0x9F],
       [0xE3, 0x80, 0x80], [0xEF, 0xBB, 0xBF]]"

definition ws_len :: "string \<Rightarrow> nat" where
  "ws_len s =
    (case find (\<lambda>w. take (length w) (map of_char s) = w) white_space of
       Some w \<Rightarrow> length w
     | None \<Rightarrow> 0)"

lemma white_space_nonempty: "w \<in> set white_space \<Longrightarrow> w \<noteq> []"
  by (auto simp: white_space_def)

lemma ws_len_shortens: "0 < ws_len s \<Longrightarrow> length (drop (ws_len s) s) < length s"
proof -
  assume pos: "0 < ws_len s"
  then obtain w where w: "find (\<lambda>w. take (length w) (map of_char s) = w) white_space = Some w"
    by (auto simp: ws_len_def split: option.splits)
  then have "w \<in> set white_space" and "take (length w) (map of_char s) = w"
    by (auto simp: find_Some_iff)
  then have "s \<noteq> []"
    using white_space_nonempty [of w] by auto
  with pos show ?thesis
    by simp
qed

function skip_ws :: "string \<Rightarrow> string" where
  "skip_ws s = (if ws_len s = 0 then s else skip_ws (drop (ws_len s) s))"
  by pat_completeness auto
termination
  using ws_len_shortens by (relation "measure length") auto

definition is_digit :: "char \<Rightarrow> bool" where
  "is_digit c = (48 \<le> (of_char c :: nat) \<and> (of_char c :: nat) \<le> 57)"

definition digits_value :: "string \<Rightarrow> int" where
  "digits_value ds = foldl (\<lambda>a c. 10 * a + (int (of_char c) - 48)) 0 ds"

text \<open>
  Leading white space is skipped, a sign is read, then the longest run of decimal digits;
  no digit gives \<^verbatim>\<open>NaN\<close>. With radix 10 no \<^verbatim>\<open>0x\<close> prefix is read. An
  integer up to \<open>2 ^ 53\<close> in size is a double; beyond that the double returned is a
  rounding of the integer (which the standard leaves to the implementation past twenty
  digits), and the result is \<open>None\<close>: not a value of this model.
\<close>

definition parseInt :: "string \<Rightarrow> jsnum option" where
  "parseInt s =
    (let s1 = skip_ws s;
         neg = (s1 \<noteq> [] \<and> hd s1 = CHR ''-'');
         s2 = (if s1 \<noteq> [] \<and> (hd s1 = CHR ''-'' \<or> hd s1 = CHR ''+'') then tl s1 else s1);
         ds = takeWhile is_digit s2
     in if ds = [] then Some NaN
        else
          let n = digits_value ds;
              v = (if neg then - n else n)
          in if \<bar>v\<bar> \<le> 2 ^ 53 then Some (Fin (of_int v)) else None)"

subsection \<open>The sort\<close>

text \<open>
  The number that \<^verbatim>\<open>-\<close> makes of a value, where this model has it: \<open>None\<close> is
  \<^verbatim>\<open>NaN\<close>, or an infinity, or the number of a string, an array or an object, which
  the model does not compute.
\<close>

fun to_number :: "jsval \<Rightarrow> rat option" where
  "to_number (Val JNull) = Some 0"
| "to_number (Val (JBool b)) = Some (if b then 1 else 0)"
| "to_number (Val (JNum (Fin q))) = Some q"
| "to_number (Val (JStr s)) = (if s = [] then Some 0 else None)"
| "to_number v = None"

text \<open>
  One operand of the comparator \<^verbatim>\<open>(a, b) => (a.position || 0) - (b.position || 0)\<close>:
  \<^verbatim>\<open>a.position || 0\<close> as a number. Reading \<^verbatim>\<open>position\<close> of
  \<^verbatim>\<open>null\<close> throws; a boolean, a number, a string and an array have no such
  property.
\<close>

fun sort_operand :: "json \<Rightarrow> error + rat option" where
  "sort_operand JNull = Inl TypeError"
| "sort_operand (JObj kvs) =
    Inr (to_number (js_or (get_property kvs ''position'') (Val (JNum (Fin 0)))))"
| "sort_operand p = Inr (Some 0)"

definition position_key :: "json \<Rightarrow> rat" where
  "position_key p = (case sort_operand p of Inr (Some k) \<Rightarrow> k | _ \<Rightarrow> 0)"

text \<open>
  \<^verbatim>\<open>photos.sort(comparator)\<close>. With fewer than two elements the comparator is not
  called. Otherwise every element is compared at least once, so a \<^verbatim>\<open>null\<close>
  element throws (and the array is left as it was). When every operand is a number the
  model has, the comparator is consistent, and the standard (ECMAScript 2019 and later)
  fixes the result: the elements in ascending order of their operands, equal ones in
  their previous order (the sort is stable); \<open>sort_key\<close> computes that list.
  When an operand is not such a number the model does not determine the order (with
  \<^verbatim>\<open>NaN\<close> the standard leaves it to the implementation) and the result is
  \<open>None\<close>.
\<close>

definition sort_photos :: "json list \<Rightarrow> (error + json list) option" where
  "sort_photos ps =
    (if length ps < 2 then Some (Inr ps)
     else if list_ex (\<lambda>p. sort_operand p = Inl TypeError) ps then Some (Inl TypeError)
     else if list_ex (\<lambda>p. sort_operand p = Inr None) ps then None
     else Some (Inr (sort_key position_key ps)))"

subsection \<open>The upload\<close>

text \<open>
  What the handler of \<^verbatim>\<open>POST /api/photos\<close> reads of the request, past
  \<^verbatim>\<open>requireAdminKey\<close> and \<^verbatim>\<open>upload.single("photo")\<close>: the name the file
  was stored under (\<^verbatim>\<open>req.file.filename\<close>, absent when no file came) and the text
  fields \<^verbatim>\<open>label\<close> and \<^verbatim>\<open>position\<close> of the form, each absent or a string.
\<close>

record upload_request =
  filename :: "string option"
  label :: "string option"
  position :: "string option"

text \<open>\<^verbatim>\<open>field || fallback\<close> on a form field: absent and empty are falsy.\<close>

definition field_or :: "string option \<Rightarrow> string \<Rightarrow> string" where
  "field_or field fallback =
    (case field of None \<Rightarrow> fallback | Some s \<Rightarrow> if s = [] then fallback else s)"

definition photoObj :: "string \<Rightarrow> string \<Rightarrow> jsnum \<Rightarrow> json" where
  "photoObj fname lbl pos =
    JObj [(''id'', JStr fname), (''url'', JStr (''/uploads/'' @ fname)),
          (''label'', JStr lbl), (''position'', JNum pos)]"

text \<open>\<^verbatim>\<open>if (!Array.isArray(content.photos)) content.photos = []\<close>, then the array.\<close>

definition photos_array :: "(string \<times> json) list \<Rightarrow> json list" where
  "photos_array content =
    (case get_property content ''photos'' of Val (JArr ps) \<Rightarrow> ps | _ \<Rightarrow> [])"

text \<open>
  The handler. The result is \<open>None\<close> where the model does not determine it (see
  \<open>parseInt\<close> and \<open>sort_photos\<close>). When the comparator throws, the photo has been
  pushed but nothing is written.
\<close>

definition addPhoto :: "state \<Rightarrow> upload_request \<Rightarrow> (state \<times> (error + json)) option" where
  "addPhoto st req =
    (case filename req of
       None \<Rightarrow> Some (st, Inl BadRequest)
     | Some fname \<Rightarrow>
         let lbl = field_or (label req) ''Photo''
         in (case readContent st of (st1, content, shared) \<Rightarrow>
           (case parseInt (field_or (position req) ''0'') of
              None \<Rightarrow> None
            | Some pos \<Rightarrow>
                let photo = photoObj fname lbl pos;
                    pushed = photos_array content @ [photo]
                in (case sort_photos pushed of
                      None \<Rightarrow> None
                    | Some (Inl e) \<Rightarrow>
                        Some (mutate shared (AList.update ''photos'' (JArr pushed) content) st1,
                              Inl e)
                    | Some (Inr sorted_photos) \<Rightarrow>
                        let content' = AList.update ''photos'' (JArr sorted_photos) content
                        in Some (writeContent content' (mutate shared content' st1),
                                 Inr (to_wire (JObj [(''status'', JStr ''ok''),
                                                     (''photo'', photo)])))))))"

section \<open>Requests and states used in the results\<close>






text \<open>A data file whose section \<^verbatim>\<open>contact\<close> is \<^verbatim>\<open>null\<close>.\<close>

definition null_contact :: state where
  "null_contact = \<lparr>data_file = Document [(''contact'', JNull)], defaults = defaultContent, uploads = []\<rparr>"

text \<open>The process after it has started with no data file and has served one
  \<^verbatim>\<open>PUT /api/content/contact\<close> with the body \<^verbatim>\<open>{}\<close>.\<close>

definition after_replace :: state where
  "after_replace = fst (replaceSection initial_state ''contact'' (JObj []))"

text \<open>\<^verbatim>\<open>content.photos\<close>, as a handler reads it in this state.\<close>

definition photos_section :: "state \<Rightarrow> jsval" where
  "photos_section st = get_property (fst (snd (readContent st))) ''photos''"

text \<open>The callback of \<^verbatim>\<open>findIndex\<close> returns true on the element.\<close>

definition has_id :: "json \<Rightarrow> string \<Rightarrow> bool" where
  "has_id p i = (id_matches p i = Inr True)"

text \<open>The reply \<^verbatim>\<open>{ status: "ok" }\<close>.\<close>

definition ok_reply :: json where
  "ok_reply = JObj [(''status'', JStr ''ok'')]"

text \<open>A photo as an upload with no label and no position stores it.\<close>

definition one_photo :: "string \<Rightarrow> json" where
  "one_photo fname = photoObj fname ''Photo'' (Fin 0)"

text \<open>Three photos, two of them with the same id; the file of that id is in the uploads
  directory.\<close>

definition two_alike :: state where
  "two_alike =
    \<lparr>data_file = Document [(''photos'', JArr [one_photo ''a.png'', one_photo ''b.png'', one_photo ''a.png''])],
     defaults = defaultContent, uploads = [(''a.png'', Removable)]\<rparr>"

text \<open>A document with no section \<^verbatim>\<open>photos\<close>.\<close>

definition no_photos :: state where
  "no_photos = \<lparr>data_file = Document [], defaults = defaultContent, uploads = []\<rparr>"


text \<open>Two photos, whose files are not in the uploads directory.\<close>

definition absent_file :: state where
  "absent_file =
    \<lparr>data_file = Document [(''photos'', JArr [one_photo ''a.png'', one_photo ''b.png''])],
     defaults = defaultContent, uploads = []\<rparr>"

text \<open>The id a stored photo carries: the string under its key \<^verbatim>\<open>id\<close>.\<close>

fun stored_id :: "json \<Rightarrow> string option" where
  "stored_id (JObj kvs) = (case map_of kvs ''id'' of Some (JStr s) \<Rightarrow> Some s | _ \<Rightarrow> None)"
| "stored_id v = None"

text \<open>Four photos, the second and the fourth with the same id; the file of that id can
  be unlinked in the first state and cannot in the second.\<close>

definition duplicates :: state where
  "duplicates =
    \<lparr>data_file = Document [(''photos'', JArr [one_photo ''b.png'', one_photo ''a.png'',
                                              one_photo ''c.png'', one_photo ''a.png''])],
     defaults = defaultContent, uploads = [(''a.png'', Removable)]\<rparr>"

definition duplicates_stuck :: state where
  "duplicates_stuck =
    \<lparr>data_file = Document [(''photos'', JArr [one_photo ''b.png'', one_photo ''a.png'',
                                              one_photo ''c.png'', one_photo ''a.png''])],
     defaults = defaultContent, uploads = [(''a.png'', Stuck)]\<rparr>"

text \<open>An element the comparator makes a number of: it is not \<^verbatim>\<open>null\<close>, and
  its position is a finite number, \<^verbatim>\<open>NaN\<close>, a boolean, \<^verbatim>\<open>null\<close>, the
  empty string or absent.\<close>

definition comparable :: "json \<Rightarrow> bool" where
  "comparable p = (case sort_operand p of Inr (Some k) \<Rightarrow> True | _ \<Rightarrow> False)"

text \<open>The reply of an upload, and the photos listed after it.\<close>

definition reply_of :: "(state \<times> (error + json)) option \<Rightarrow> (error + json) option" where
  "reply_of r = map_option snd r"

definition listed_after :: "(state \<times> (error + json)) option \<Rightarrow> jsval option" where
  "listed_after r = map_option (\<lambda>x. snd (listPhotos (fst x))) r"

text \<open>An upload with a stored file, no label and the given position field.\<close>

definition upload_with :: "string \<Rightarrow> string option \<Rightarrow> upload_request" where
  "upload_with fname pos = \<lparr>filename = Some fname, label = None, position = pos\<rparr>"

text \<open>A photo as the reply and the data file show it, with the given value of
  \<^verbatim>\<open>position\<close>.\<close>

definition wire_photo :: "string \<Rightarrow> string \<Rightarrow> json \<Rightarrow> json" where
  "wire_photo fname lbl pos =
    JObj [(''id'', JStr fname), (''url'', JStr (''/uploads/'' @ fname)),
          (''label'', JStr lbl), (''position'', pos)]"

section \<open>Serialisation and the data file\<close>

lemma to_wire_idem: "to_wire (to_wire v) = to_wire v"
proof (induction v)
  case (JNum n)
  then show ?case by (cases n) simp_all
next
  case (JArr xs)
  then show ?case by (induction xs) simp_all
next
  case (JObj kvs)
  then show ?case by (induction kvs) fastforce+
qed simp_all

lemma wire_obj_idem: "wire_obj (wire_obj kvs) = wire_obj kvs"
  using to_wire_idem [of "JObj kvs"] by (simp add: wire_obj_def)

lemma map_of_wire_obj: "map_of (wire_obj kvs) k = map_option to_wire (map_of kvs k)"
  by (induction kvs) (auto simp: wire_obj_def)

lemma keys_wire_obj: "map fst (wire_obj kvs) = map fst kvs"
  by (simp add: wire_obj_def)

lemma hasOwnProperty_wire_obj: "hasOwnProperty (wire_obj kvs) k = hasOwnProperty kvs k"
  by (simp add: hasOwnProperty_def map_of_wire_obj)

lemma hasOwnProperty_keys: "hasOwnProperty kvs k = (k \<in> set (map fst kvs))"
  by (simp add: hasOwnProperty_def map_of_eq_None_iff)

lemma get_property_wire_obj: "get_property (wire_obj kvs) k = wire_val (get_property kvs k)"
  by (simp add: get_property_def map_of_wire_obj split: option.split)

lemma wire_obj_update:
  "wire_obj (AList.update k v kvs) = AList.update k (to_wire v) (wire_obj kvs)"
  by (induction kvs) (auto simp: wire_obj_def)

lemma readContent_document:
  "data_file st = Document d \<Longrightarrow> readContent st = (st, wire_obj d, False)"
  by (simp add: readContent_def)

lemma readContent_writeContent:
  "readContent (writeContent c st) = (writeContent c st, wire_obj c, False)"
  by (simp add: readContent_def writeContent_def)

lemma current_document_writeContent:
  "current_document (writeContent c st) = wire_obj c"
  by (simp add: current_document_def readContent_writeContent wire_obj_idem)

lemma load_current: "load st = (fst (readContent st), JObj (current_document st))"
  by (simp add: load_def current_document_def wire_obj_def split: prod.split)

section \<open>Replacing a section\<close>

text \<open>
  C6. \<^verbatim>\<open>replaceSection(name, v)\<close> replies NotFound when \<open>name\<close> is not a key of
  the current document, and then writes nothing. When \<open>name\<close> is a key, the reply is ok,
  the document has the same keys in the same order afterwards, the section \<open>name\<close> holds
  \<open>v\<close> (as serialised), and every other section holds what it held.
\<close>

theorem replaceSection_frame:
  "(\<not> hasOwnProperty (current_document st) name \<longrightarrow>
      snd (replaceSection st name v) = Inl NotFound
      \<and> fst (replaceSection st name v) = fst (readContent st))
   \<and> (hasOwnProperty (current_document st) name \<longrightarrow>
      snd (replaceSection st name v)
        = Inr (JObj [(''status'', JStr ''ok''), (''section'', to_wire v)])
      \<and> map fst (current_document (fst (replaceSection st name v)))
        = map fst (current_document st)
      \<and> map_of (current_document (fst (replaceSection st name v))) name = Some (to_wire v)
      \<and> (\<forall>k. k \<noteq> name \<longrightarrow>
            map_of (current_document (fst (replaceSection st name v))) k
            = map_of (current_document st) k))"
proof -
  obtain st1 content shared where rc: "readContent st = (st1, content, shared)"
    by (cases "readContent st") auto
  have cur: "current_document st = wire_obj content"
    by (simp add: current_document_def rc)
  show ?thesis
  proof (cases "hasOwnProperty content name")
    case False
    then show ?thesis
      by (simp add: replaceSection_def rc cur hasOwnProperty_wire_obj)
  next
    case True
    let ?c = "AList.update name v content"
    have st': "fst (replaceSection st name v) = writeContent ?c (mutate shared ?c st1)"
      using True by (simp add: replaceSection_def rc Let_def)
    have after: "current_document (fst (replaceSection st name v))
        = AList.update name (to_wire v) (wire_obj content)"
      by (simp add: st' current_document_writeContent wire_obj_update)
    have "set (map fst (wire_obj content)) = set (map fst content)"
      by (simp only: keys_wire_obj)
    then have keys: "name \<in> fst ` set (wire_obj content)"
      using True by (simp add: hasOwnProperty_keys)
    have reply: "snd (replaceSection st name v)
        = Inr (JObj [(''status'', JStr ''ok''), (''section'', to_wire v)])"
      using True by (simp add: replaceSection_def rc Let_def)
    have "map fst (AList.update name (to_wire v) (wire_obj content)) = map fst (wire_obj content)"
      using keys by (simp add: update_keys)
    moreover have "map_of (AList.update name (to_wire v) (wire_obj content)) name = Some (to_wire v)"
      by (simp add: update_conv')
    moreover have "k \<noteq> name \<Longrightarrow>
        map_of (AList.update name (to_wire v) (wire_obj content)) k = map_of (wire_obj content) k" for k
      by (simp add: update_conv')
    ultimately show ?thesis
      using True reply by (simp add: cur after hasOwnProperty_wire_obj)
  qed
qed

lemma current_document_initial: "current_document initial_state = wire_obj defaultContent"
  by (simp add: current_document_def readContent_def initial_state_def)

lemma default_keys:
  "map fst defaultContent = [''about'', ''services'', ''availability'', ''photos'', ''contact'']"
  by (simp add: defaultContent_def)

theorem replaceSection_frame_witness:
  "hasOwnProperty (current_document initial_state) ''contact''
   \<and> snd (replaceSection initial_state ''contact'' (JObj []))
       = Inr (JObj [(''status'', JStr ''ok''), (''section'', JObj [])])
   \<and> map fst (current_document (fst (replaceSection initial_state ''contact'' (JObj []))))
       = [''about'', ''services'', ''availability'', ''photos'', ''contact'']
   \<and> map_of (current_document (fst (replaceSection initial_state ''contact'' (JObj [])))) ''about''
       = map_of (current_document initial_state) ''about''
   \<and> \<not> hasOwnProperty (current_document initial_state) ''pricing''
   \<and> snd (replaceSection initial_state ''pricing'' (JObj [])) = Inl NotFound"
proof -
  have present: "hasOwnProperty (current_document initial_state) ''contact''"
    unfolding current_document_initial hasOwnProperty_wire_obj
    by (simp add: hasOwnProperty_keys default_keys)
  have absent: "\<not> hasOwnProperty (current_document initial_state) ''pricing''"
    unfolding current_document_initial hasOwnProperty_wire_obj
    by (simp add: hasOwnProperty_keys default_keys)
  have keys: "map fst (current_document initial_state)
      = [''about'', ''services'', ''availability'', ''photos'', ''contact'']"
    by (simp add: current_document_initial keys_wire_obj default_keys)
  show ?thesis
    using present absent keys
      replaceSection_frame [of initial_state "''contact''" "JObj []"]
      replaceSection_frame [of initial_state "''pricing''" "JObj []"]
    by simp
qed

section \<open>Reading and replacing: the round trip\<close>








section \<open>Reading a section\<close>

lemma getSection_NotFound_iff:
  "snd (getSection st name) = Inl NotFound
   \<longleftrightarrow> falsy_val (get_property (fst (snd (readContent st))) name)"
  by (simp add: getSection_def Let_def split: prod.split)

text \<open>
  C4. The GET handler does not test whether the name is a key: it tests whether
  \<^verbatim>\<open>content[name]\<close> is truthy. On the default document the name
  \<^verbatim>\<open>toString\<close> is not a key (and the PUT handler replies NotFound for it), yet the
  GET handler finds the inherited function and replies with it. In a document whose
  section \<^verbatim>\<open>contact\<close> is \<^verbatim>\<open>null\<close> the name is a key, yet the handler
  replies NotFound.
\<close>

theorem getSection_not_by_key:
  "\<not> hasOwnProperty (current_document initial_state) ''toString''
   \<and> snd (getSection initial_state ''toString'') = Inr (ProtoMember ''toString'')
   \<and> snd (replaceSection initial_state ''toString'' (JObj [])) = Inl NotFound
   \<and> hasOwnProperty (current_document null_contact) ''contact''
   \<and> snd (getSection null_contact ''contact'') = Inl NotFound"
proof -
  have absent: "map_of defaultContent ''toString'' = None"
    by (simp add: defaultContent_def)
  have rc: "readContent initial_state
      = (initial_state\<lparr>data_file := Document defaultContent\<rparr>, defaultContent, True)"
    by (simp add: readContent_def initial_state_def)
  have "\<not> hasOwnProperty (current_document initial_state) ''toString''"
    unfolding current_document_initial hasOwnProperty_wire_obj
    by (simp add: hasOwnProperty_def absent)
  moreover have "snd (getSection initial_state ''toString'') = Inr (ProtoMember ''toString'')"
    by (simp add: getSection_def rc get_property_def absent object_prototype_keys_def)
  moreover have "snd (replaceSection initial_state ''toString'' (JObj [])) = Inl NotFound"
    by (simp add: replaceSection_def rc hasOwnProperty_def absent)
  moreover have "hasOwnProperty (current_document null_contact) ''contact''"
    by (simp add: current_document_def readContent_def null_contact_def hasOwnProperty_def wire_obj_def)
  moreover have "snd (getSection null_contact ''contact'') = Inl NotFound"
    by (simp add: getSection_def readContent_def null_contact_def get_property_def wire_obj_def)
  ultimately show ?thesis
    by simp
qed

section \<open>Loading an unparsable file\<close>

lemma wire_default: "wire_obj defaultContent = defaultContent"
  by (simp add: wire_obj_def defaultContent_def default_about_def default_services_def
      default_availability_def default_contact_def)

lemma load_garbage_pristine:
  assumes "data_file st = Garbage raw" and "defaults st = defaultContent"
  shows "snd (load st) = JObj defaultContent"
    and "data_file (fst (load st)) = Document defaultContent"
    and "snd (load (fst (load st))) = JObj defaultContent"
  using assms
  by (simp_all add: load_def readContent_def wire_default wire_obj_def [symmetric])

text \<open>
  C7. A mutation made through the object that \<^verbatim>\<open>readContent\<close> returned for a
  missing file is a mutation of \<^verbatim>\<open>defaultContent\<close>. When the data file is
  unparsable afterwards, the load replies with that changed object and writes it: not the
  built-in default.
\<close>

theorem load_garbage_after_replace:
  "defaults after_replace = AList.update ''contact'' (JObj []) defaultContent
   \<and> snd (load (after_replace\<lparr>data_file := Garbage ''{''\<rparr>))
       = JObj (AList.update ''contact'' (JObj []) defaultContent)
   \<and> snd (load (after_replace\<lparr>data_file := Garbage ''{''\<rparr>)) \<noteq> JObj defaultContent"
proof -
  have rc: "readContent initial_state
      = (initial_state\<lparr>data_file := Document defaultContent\<rparr>, defaultContent, True)"
    by (simp add: readContent_def initial_state_def)
  have own: "hasOwnProperty defaultContent ''contact''"
    by (simp add: hasOwnProperty_keys default_keys)
  have d: "defaults after_replace = AList.update ''contact'' (JObj []) defaultContent"
    by (simp add: after_replace_def replaceSection_def rc own Let_def mutate_def writeContent_def)
  have w: "wire_obj (AList.update ''contact'' (JObj []) defaultContent)
      = AList.update ''contact'' (JObj []) defaultContent"
    by (simp add: wire_obj_update wire_default)
  have l: "snd (load (after_replace\<lparr>data_file := Garbage ''{''\<rparr>))
      = JObj (AList.update ''contact'' (JObj []) defaultContent)"
    by (simp add: load_def readContent_def d w wire_obj_def [symmetric])
  have "map_of (AList.update ''contact'' (JObj []) defaultContent) ''contact''
      \<noteq> map_of defaultContent ''contact''"
    by (simp add: update_conv' defaultContent_def default_contact_def)
  then have "AList.update ''contact'' (JObj []) defaultContent \<noteq> defaultContent"
    by auto
  with d l show ?thesis
    by simp
qed


section \<open>Removing a photo\<close>

lemma map_to_wire_idem: "map to_wire (map to_wire xs) = map to_wire xs"
  by (simp add: to_wire_idem)

lemma uploads_readContent: "uploads (fst (readContent st)) = uploads st"
  by (simp add: readContent_def split: file_state.split)



lemma listPhotos_array:
  assumes "photos_section st = Val (JArr ps)"
  shows "snd (listPhotos st) = Val (JArr (map to_wire ps))"
proof -
  obtain st1 content shared where rc: "readContent st = (st1, content, shared)"
    by (cases "readContent st") auto
  with assms show ?thesis
    by (simp add: photos_section_def listPhotos_def js_or_def)
qed

lemma strict_eq_str_wire: "strict_eq_str (wire_val v) i = strict_eq_str v i"
proof (cases v)
  case (Val x)
  then show ?thesis
    by (cases x) (auto simp: strict_eq_str_def split: jsnum.split)
qed (simp_all add: strict_eq_str_def)

lemma id_matches_wire: "to_wire q \<noteq> JNull \<Longrightarrow> id_matches (to_wire q) i = id_matches q i"
  by (cases q) (auto simp: get_property_wire_obj strict_eq_str_wire wire_obj_def [symmetric] split: jsnum.splits)

lemma has_id_wire: "has_id (to_wire q) i = has_id q i"
  by (cases q) (auto simp: has_id_def get_property_wire_obj strict_eq_str_wire wire_obj_def [symmetric] split: jsnum.splits)

lemma id_matches_has_id: "to_wire q \<noteq> JNull \<Longrightarrow> id_matches q i = Inr (has_id q i)"
  by (cases q) (auto simp: has_id_def)

lemma get_property_update_same: "get_property (AList.update k v kvs) k = Val v"
  by (simp add: get_property_def update_conv')

lemma get_property_update_other:
  "k' \<noteq> k \<Longrightarrow> get_property (AList.update k v kvs) k' = get_property kvs k'"
  by (simp add: get_property_def update_conv')

lemma findIndex_first:
  "\<forall>q\<in>set pre. id_matches q i = Inr False \<Longrightarrow> id_matches p i = Inr True
   \<Longrightarrow> findIndex (pre @ p # post) i = Inr (Some (length pre))"
  by (induction pre) simp_all

lemma findIndex_none: "\<forall>q\<in>set ps. id_matches q i = Inr False \<Longrightarrow> findIndex ps i = Inr None"
  by (induction ps) simp_all

lemma splice1_middle: "splice1 (length pre) (pre @ p # post) = pre @ post"
  by (simp add: splice1_def)

lemma removePhoto_none:
  assumes "photos_section st = Val (JArr ps)" and "\<forall>q\<in>set ps. id_matches q i = Inr False"
  shows "removePhoto st i = (fst (readContent st), Inl NotFound)"
proof -
  obtain st1 content shared where rc: "readContent st = (st1, content, shared)"
    by (cases "readContent st") auto
  with assms show ?thesis
    by (simp add: removePhoto_def photos_section_def findIndex_none)
qed

lemma removePhoto_stuck:
  assumes "photos_section st = Val (JArr (pre @ p # post))"
    and "\<forall>q\<in>set pre. id_matches q i = Inr False" and "id_matches p i = Inr True"
    and "map_of (uploads st) i = Some Stuck"
  shows "removePhoto st i = (fst (readContent st), Inl UnlinkFailed)"
proof -
  obtain st1 content shared where rc: "readContent st = (st1, content, shared)"
    by (cases "readContent st") auto
  have up: "uploads st1 = uploads st"
    using uploads_readContent [of st] by (simp add: rc)
  show ?thesis
    using assms
    by (simp add: removePhoto_def photos_section_def rc up findIndex_first)
qed

lemma removePhoto_first:
  assumes "photos_section st = Val (JArr (pre @ p # post))"
    and "\<forall>q\<in>set pre. id_matches q i = Inr False" and "id_matches p i = Inr True"
    and "map_of (uploads st) i \<noteq> Some Stuck"
  shows "snd (removePhoto st i) = Inr ok_reply"
    and "photos_section (fst (removePhoto st i)) = Val (JArr (map to_wire (pre @ post)))"
    and "uploads (fst (removePhoto st i)) = AList.delete i (uploads st)"
    and "data_file (fst (removePhoto st i))
      = Document (AList.update ''photos'' (JArr (pre @ post)) (fst (snd (readContent st))))"
proof -
  obtain st1 content shared where rc: "readContent st = (st1, content, shared)"
    by (cases "readContent st") auto
  have up: "uploads st1 = uploads st"
    using uploads_readContent [of st] by (simp add: rc)
  let ?c = "AList.update ''photos'' (JArr (pre @ post)) content"
  let ?st2 = "st1\<lparr>uploads := AList.delete i (uploads st)\<rparr>"
  have photos: "get_property content ''photos'' = Val (JArr (pre @ p # post))"
    using assms(1) by (simp add: photos_section_def rc)
  have unlink: "(case map_of (uploads st) i of Some Stuck \<Rightarrow> a | _ \<Rightarrow> b) = b" for a b :: "state \<times> (error + json)"
    using assms(4) by (simp split: option.split upload.split)
  have run: "removePhoto st i = (writeContent ?c (mutate shared ?c ?st2), Inr ok_reply)"
    by (simp add: removePhoto_def rc photos up findIndex_first [OF assms(2,3)] unlink
        splice1_middle ok_reply_def Let_def)
  show "snd (removePhoto st i) = Inr ok_reply"
    by (simp add: run)
  show "photos_section (fst (removePhoto st i)) = Val (JArr (map to_wire (pre @ post)))"
    by (simp add: run photos_section_def readContent_writeContent wire_obj_update
        get_property_update_same)
  show "uploads (fst (removePhoto st i)) = AList.delete i (uploads st)"
    by (simp add: run writeContent_def mutate_def)
  show "data_file (fst (removePhoto st i))
      = Document (AList.update ''photos'' (JArr (pre @ post)) (fst (snd (readContent st))))"
    by (simp add: run rc writeContent_def)
qed

lemma listPhotos_after_remove:
  assumes "photos_section st = Val (JArr (pre @ p # post))"
    and "\<forall>q\<in>set pre. id_matches q i = Inr False" and "id_matches p i = Inr True"
    and "map_of (uploads st) i \<noteq> Some Stuck"
  shows "snd (listPhotos (fst (removePhoto st i))) = Val (JArr (map to_wire (pre @ post)))"
  using listPhotos_array [OF removePhoto_first(2) [OF assms]]
  by (simp add: to_wire_idem)


lemma count_id_wire:
  "length (filter (\<lambda>q. has_id q i) (map to_wire xs)) = length (filter (\<lambda>q. has_id q i) xs)"
  by (induction xs) (simp_all add: has_id_wire)

lemma id_matches_stored_id: "q \<noteq> JNull \<Longrightarrow> id_matches q i = Inr (stored_id q = Some i)"
proof (cases q)
  case (JObj kvs)
  have "''id'' \<notin> set object_prototype_keys"
    by (simp add: object_prototype_keys_def)
  then show ?thesis
    by (auto simp: JObj get_property_def strict_eq_str_def split: option.splits json.splits)
qed simp_all

text \<open>
  C10, as amended. The photos are \<open>pre\<close>, then \<open>p\<close>, then \<open>post\<close>, where \<open>p\<close> is the
  first photo that carries the id asked for: no entry of \<open>pre\<close> carries it (and none is
  \<^verbatim>\<open>null\<close>), while \<open>post\<close> may hold further photos with the same id. When the
  file of that id is absent or can be unlinked, \<^verbatim>\<open>removePhoto(id)\<close> succeeds and
  the photos listed afterwards are those of \<open>pre\<close> and \<open>post\<close>, unchanged and in order:
  exactly the first match is gone, and the sequence is shorter by one.
\<close>

theorem removePhoto_first_match:
  assumes "photos_section st = Val (JArr (pre @ p # post))"
    and "\<forall>q\<in>set pre. q \<noteq> JNull \<and> stored_id q \<noteq> Some i"
    and "stored_id p = Some i"
    and "map_of (uploads st) i \<noteq> Some Stuck"
  shows "snd (listPhotos st) = Val (JArr (map to_wire pre @ to_wire p # map to_wire post))
    \<and> snd (removePhoto st i) = Inr ok_reply
    \<and> snd (listPhotos (fst (removePhoto st i))) = Val (JArr (map to_wire pre @ map to_wire post))
    \<and> length (map to_wire pre @ map to_wire post) + 1
        = length (map to_wire pre @ to_wire p # map to_wire post)"
proof -
  have pre: "\<forall>q\<in>set pre. id_matches q i = Inr False"
    using assms(2) by (simp add: id_matches_stored_id)
  have "p \<noteq> JNull"
    using assms(3) by auto
  then have p: "id_matches p i = Inr True"
    using assms(3) by (simp add: id_matches_stored_id)
  show ?thesis
    using listPhotos_array [OF assms(1)] removePhoto_first(1) [OF assms(1) pre p assms(4)]
      listPhotos_after_remove [OF assms(1) pre p assms(4)]
    by simp
qed

lemma one_photo_id: "id_matches (one_photo f) i = Inr (f = i)"
  by (auto simp: one_photo_def photoObj_def get_property_def strict_eq_str_def)

lemma one_photo_wire: "to_wire (one_photo f) = one_photo f"
  by (simp add: one_photo_def photoObj_def)

lemma photos_two_alike:
  "photos_section two_alike = Val (JArr ([] @ one_photo ''a.png'' # [one_photo ''b.png'', one_photo ''a.png'']))"
  by (simp add: photos_section_def readContent_def two_alike_def get_property_def wire_obj_def one_photo_wire)

lemma one_photo_stored_id: "stored_id (one_photo f) = Some f"
  by (simp add: one_photo_def photoObj_def)

lemma one_photo_not_null: "one_photo f \<noteq> JNull"
  by (simp add: one_photo_def photoObj_def)

lemma photos_duplicates:
  "photos_section duplicates
    = Val (JArr ([one_photo ''b.png''] @ one_photo ''a.png'' # [one_photo ''c.png'', one_photo ''a.png'']))"
  by (simp add: photos_section_def readContent_def duplicates_def get_property_def wire_obj_def one_photo_wire)

lemma photos_duplicates_stuck:
  "photos_section duplicates_stuck
    = Val (JArr ([one_photo ''b.png''] @ one_photo ''a.png'' # [one_photo ''c.png'', one_photo ''a.png'']))"
  by (simp add: photos_section_def readContent_def duplicates_stuck_def get_property_def wire_obj_def one_photo_wire)

theorem removePhoto_first_match_witness:
  "snd (listPhotos duplicates)
     = Val (JArr [one_photo ''b.png'', one_photo ''a.png'', one_photo ''c.png'', one_photo ''a.png''])
   \<and> stored_id (one_photo ''b.png'') \<noteq> Some ''a.png''
   \<and> stored_id (one_photo ''a.png'') = Some ''a.png''
   \<and> map_of (uploads duplicates) ''a.png'' \<noteq> Some Stuck
   \<and> snd (removePhoto duplicates ''a.png'') = Inr ok_reply
   \<and> snd (listPhotos (fst (removePhoto duplicates ''a.png'')))
       = Val (JArr [one_photo ''b.png'', one_photo ''c.png'', one_photo ''a.png''])"
proof -
  have unlink: "map_of (uploads duplicates) ''a.png'' \<noteq> Some Stuck"
    by (simp add: duplicates_def)
  have pre: "\<forall>q\<in>set [one_photo ''b.png'']. q \<noteq> JNull \<and> stored_id q \<noteq> Some ''a.png''"
    by (simp add: one_photo_stored_id one_photo_not_null)
  have p: "stored_id (one_photo ''a.png'') = Some ''a.png''"
    by (rule one_photo_stored_id)
  show ?thesis
    using unlink p removePhoto_first_match [OF photos_duplicates pre p unlink]
    by (simp add: one_photo_stored_id one_photo_wire)
qed

text \<open>
  C10 as stated fails: when the file of the id cannot be unlinked, nothing is removed and
  the sequence keeps its length.
\<close>

theorem removePhoto_first_match_counterexample:
  "snd (listPhotos duplicates_stuck)
     = Val (JArr [one_photo ''b.png'', one_photo ''a.png'', one_photo ''c.png'', one_photo ''a.png''])
   \<and> removePhoto duplicates_stuck ''a.png'' = (duplicates_stuck, Inl UnlinkFailed)
   \<and> snd (listPhotos (fst (removePhoto duplicates_stuck ''a.png'')))
     = Val (JArr [one_photo ''b.png'', one_photo ''a.png'', one_photo ''c.png'', one_photo ''a.png''])"
proof -
  have rc: "fst (readContent duplicates_stuck) = duplicates_stuck"
    by (simp add: readContent_def duplicates_stuck_def)
  have stuck: "map_of (uploads duplicates_stuck) ''a.png'' = Some Stuck"
    by (simp add: duplicates_stuck_def)
  have pre: "\<forall>q\<in>set [one_photo ''b.png'']. id_matches q ''a.png'' = Inr False"
    by (simp add: one_photo_id)
  have p: "id_matches (one_photo ''a.png'') ''a.png'' = Inr True"
    by (simp add: one_photo_id)
  have run: "removePhoto duplicates_stuck ''a.png'' = (duplicates_stuck, Inl UnlinkFailed)"
    using removePhoto_stuck [OF photos_duplicates_stuck pre p stuck] by (simp add: rc)
  show ?thesis
    using listPhotos_array [OF photos_duplicates_stuck] by (simp add: run one_photo_wire)
qed

text \<open>
  C2, as amended. In a document whose photos section is an array with no
  \<^verbatim>\<open>null\<close> entry: \<^verbatim>\<open>removePhoto(id)\<close> replies NotFound when no photo has
  the id. When some photo has it and its file is absent or can be unlinked, the call
  succeeds and the photos listed afterwards hold one photo with that id fewer; when
  exactly one photo had the id, none listed afterwards has it and a second
  \<^verbatim>\<open>removePhoto(id)\<close> replies NotFound.
\<close>

theorem removePhoto_by_id:
  assumes "photos_section st = Val (JArr ps)" and "JNull \<notin> set (map to_wire ps)"
  shows "(\<not> (\<exists>q\<in>set ps. has_id q i) \<longrightarrow> snd (removePhoto st i) = Inl NotFound)
    \<and> ((\<exists>q\<in>set ps. has_id q i) \<and> map_of (uploads st) i \<noteq> Some Stuck \<longrightarrow>
          snd (removePhoto st i) = Inr ok_reply
        \<and> (\<exists>ps'. snd (listPhotos (fst (removePhoto st i))) = Val (JArr ps')
               \<and> length (filter (\<lambda>q. has_id q i) ps') + 1 = length (filter (\<lambda>q. has_id q i) ps)
               \<and> (length (filter (\<lambda>q. has_id q i) ps) = 1 \<longrightarrow> \<not> (\<exists>q\<in>set ps'. has_id q i)))
        \<and> (length (filter (\<lambda>q. has_id q i) ps) = 1 \<longrightarrow>
              snd (removePhoto (fst (removePhoto st i)) i) = Inl NotFound))"
proof -
  have sound: "id_matches q i = Inr (has_id q i)" and sound_wire: "id_matches (to_wire q) i = Inr (has_id q i)"
    if "q \<in> set ps" for q
  proof -
    from that assms(2) have nn: "to_wire q \<noteq> JNull"
      by force
    then show "id_matches q i = Inr (has_id q i)"
      by (rule id_matches_has_id)
    with nn show "id_matches (to_wire q) i = Inr (has_id q i)"
      by (simp add: id_matches_wire)
  qed
  have absent: "snd (removePhoto st i) = Inl NotFound" if "\<not> (\<exists>q\<in>set ps. has_id q i)"
    using removePhoto_none [OF assms(1), of i] that sound by simp
  have present: "snd (removePhoto st i) = Inr ok_reply
        \<and> (\<exists>ps'. snd (listPhotos (fst (removePhoto st i))) = Val (JArr ps')
               \<and> length (filter (\<lambda>q. has_id q i) ps') + 1 = length (filter (\<lambda>q. has_id q i) ps)
               \<and> (length (filter (\<lambda>q. has_id q i) ps) = 1 \<longrightarrow> \<not> (\<exists>q\<in>set ps'. has_id q i)))
        \<and> (length (filter (\<lambda>q. has_id q i) ps) = 1 \<longrightarrow>
              snd (removePhoto (fst (removePhoto st i)) i) = Inl NotFound)"
    if some: "\<exists>q\<in>set ps. has_id q i" and unlink: "map_of (uploads st) i \<noteq> Some Stuck"
  proof -
    from split_list_first_prop [OF some]
    obtain pre p post where ps: "ps = pre @ p # post" and p: "has_id p i"
      and pre: "\<forall>q\<in>set pre. \<not> has_id q i"
      by blast
    have sec: "photos_section st = Val (JArr (pre @ p # post))"
      using assms(1) ps by simp
    have pre': "\<forall>q\<in>set pre. id_matches q i = Inr False"
      using pre sound ps by simp
    have p': "id_matches p i = Inr True"
      using p by (simp add: has_id_def)
    note first = removePhoto_first [OF sec pre' p' unlink]
    have listed: "snd (listPhotos (fst (removePhoto st i))) = Val (JArr (map to_wire (pre @ post)))"
      by (rule listPhotos_after_remove [OF sec pre' p' unlink])
    have none_pre: "filter (\<lambda>q. has_id q i) pre = []"
      using pre by (simp add: filter_empty_conv)
    have count: "length (filter (\<lambda>q. has_id q i) (map to_wire (pre @ post))) + 1
        = length (filter (\<lambda>q. has_id q i) ps)"
      unfolding count_id_wire using p none_pre by (simp add: ps)
    have gone: "\<not> (\<exists>q\<in>set (map to_wire (pre @ post)). has_id q i)"
      and again: "snd (removePhoto (fst (removePhoto st i)) i) = Inl NotFound"
      if one: "length (filter (\<lambda>q. has_id q i) ps) = 1"
    proof -
      from one p none_pre have "filter (\<lambda>q. has_id q i) post = []"
        by (simp add: ps)
      then have rest: "\<forall>q\<in>set (pre @ post). \<not> has_id q i"
        using pre by (auto simp: filter_empty_conv)
      then show "\<not> (\<exists>q\<in>set (map to_wire (pre @ post)). has_id q i)"
        by (auto simp: has_id_wire)
      have "\<forall>q\<in>set (map to_wire (pre @ post)). id_matches q i = Inr False"
        using rest sound_wire ps by auto
      from removePhoto_none [OF first(2) this] show "snd (removePhoto (fst (removePhoto st i)) i) = Inl NotFound"
        by simp
    qed
    from first(1) listed count gone again show ?thesis
      by blast
  qed
  from absent present show ?thesis
    by blast
qed

lemma photos_absent_file:
  "photos_section absent_file = Val (JArr [one_photo ''a.png'', one_photo ''b.png''])"
  by (simp add: photos_section_def readContent_def absent_file_def get_property_def wire_obj_def one_photo_wire)

lemma one_photo_has_id: "has_id (one_photo f) i = (f = i)"
  by (simp add: has_id_def one_photo_id)

theorem removePhoto_by_id_witness:
  "photos_section absent_file = Val (JArr [one_photo ''a.png'', one_photo ''b.png''])
   \<and> JNull \<notin> set (map to_wire [one_photo ''a.png'', one_photo ''b.png''])
   \<and> snd (removePhoto absent_file ''c.png'') = Inl NotFound
   \<and> snd (removePhoto absent_file ''a.png'') = Inr ok_reply
   \<and> snd (removePhoto (fst (removePhoto absent_file ''a.png'')) ''a.png'') = Inl NotFound"
proof -
  have nn: "JNull \<notin> set (map to_wire [one_photo ''a.png'', one_photo ''b.png''])"
    using one_photo_not_null [of "''a.png''"] one_photo_not_null [of "''b.png''"]
    by (simp add: one_photo_wire)
  have unlink: "map_of (uploads absent_file) ''a.png'' \<noteq> Some Stuck"
    by (simp add: absent_file_def)
  show ?thesis
    using photos_absent_file nn unlink
      removePhoto_by_id [OF photos_absent_file nn, of "''c.png''"]
      removePhoto_by_id [OF photos_absent_file nn, of "''a.png''"]
    by (simp add: one_photo_has_id)
qed

text \<open>
  C2 as stated fails: with two photos of one id the id is still listed after a removal
  and a second removal succeeds; and with no photos section the handler throws instead
  of replying NotFound.
\<close>

theorem removePhoto_duplicate_counterexample:
  "snd (removePhoto two_alike ''a.png'') = Inr ok_reply
   \<and> snd (listPhotos (fst (removePhoto two_alike ''a.png'')))
       = Val (JArr [one_photo ''b.png'', one_photo ''a.png''])
   \<and> snd (removePhoto (fst (removePhoto two_alike ''a.png'')) ''a.png'') = Inr ok_reply
   \<and> snd (removePhoto no_photos ''a.png'') = Inl TypeError"
proof -
  have unlink: "map_of (uploads two_alike) ''a.png'' \<noteq> Some Stuck"
    by (simp add: two_alike_def)
  have pre: "\<forall>q\<in>set []. id_matches q ''a.png'' = Inr False"
    by simp
  have p: "id_matches (one_photo ''a.png'') ''a.png'' = Inr True"
    by (simp add: one_photo_id)
  note first = removePhoto_first [OF photos_two_alike pre p unlink]
  have sec: "photos_section (fst (removePhoto two_alike ''a.png''))
      = Val (JArr ([one_photo ''b.png''] @ one_photo ''a.png'' # []))"
    using first(2) by (simp add: one_photo_wire)
  have pre2: "\<forall>q\<in>set [one_photo ''b.png'']. id_matches q ''a.png'' = Inr False"
    by (simp add: one_photo_id)
  have "uploads two_alike = [(''a.png'', Removable)]"
    by (simp add: two_alike_def)
  then have unlink2: "map_of (uploads (fst (removePhoto two_alike ''a.png''))) ''a.png'' \<noteq> Some Stuck"
    by (simp add: first(3))
  have "snd (removePhoto no_photos ''a.png'') = Inl TypeError"
    by (simp add: removePhoto_def readContent_def no_photos_def get_property_def wire_obj_def
        object_prototype_keys_def)
  with first(1) listPhotos_after_remove [OF photos_two_alike pre p unlink]
    removePhoto_first(1) [OF sec pre2 p unlink2]
  show ?thesis
    by (simp add: one_photo_wire)
qed






section \<open>Adding a photo\<close>

lemma parseInt_examples:
  "parseInt ''0'' = Some (Fin 0)" "parseInt ''5'' = Some (Fin 5)" "parseInt ''1'' = Some (Fin 1)"
  "parseInt ''3'' = Some (Fin 3)" "parseInt ''abc'' = Some NaN"
  by code_simp+

lemma position_key_wire: "position_key (to_wire p) = position_key p"
proof (cases p)
  case (JObj kvs)
  show ?thesis
  proof (cases "get_property kvs ''position''")
    case (Val v)
    then show ?thesis
      using JObj
      by (cases v)
        (auto simp: position_key_def wire_obj_def [symmetric] get_property_wire_obj js_or_def
          split: jsnum.splits)
  qed (simp_all add: JObj position_key_def wire_obj_def [symmetric] get_property_wire_obj
      js_or_def)
qed (auto simp: position_key_def split: jsnum.splits)

lemma short_sorted: "length ps < 2 \<Longrightarrow> sort_key f ps = ps"
  by (cases ps; cases "tl ps") auto


lemma comparable_operand:
  "comparable p \<Longrightarrow> sort_operand p \<noteq> Inl TypeError \<and> sort_operand p \<noteq> Inr None"
  by (auto simp: comparable_def split: sum.splits option.splits)

lemma sort_photos_comparable:
  assumes "list_all comparable ps"
  shows "sort_photos ps = Some (Inr (sort_key position_key ps))"
proof -
  have "\<not> list_ex (\<lambda>p. sort_operand p = Inl TypeError) ps"
    and "\<not> list_ex (\<lambda>p. sort_operand p = Inr None) ps"
    using assms comparable_operand by (auto simp: list_ex_iff list_all_iff)
  then show ?thesis
    by (simp add: sort_photos_def short_sorted)
qed

lemma photos_section_writeContent:
  "photos_section (writeContent (AList.update ''photos'' v content) s) = Val (to_wire v)"
  by (simp add: photos_section_def readContent_writeContent wire_obj_update
      get_property_update_same)

lemma addPhoto_run:
  assumes "filename req = Some fname"
    and "parseInt (field_or (position req) ''0'') = Some pos"
    and "sort_photos (photos_array (fst (snd (readContent st)))
            @ [photoObj fname (field_or (label req) ''Photo'') pos]) = Some (Inr sorted_ps)"
  shows "\<exists>st'. addPhoto st req
           = Some (st', Inr (JObj [(''status'', JStr ''ok''),
                (''photo'', to_wire (photoObj fname (field_or (label req) ''Photo'') pos))]))
         \<and> photos_section st' = Val (JArr (map to_wire sorted_ps))"
proof -
  obtain st1 content shared where rc: "readContent st = (st1, content, shared)"
    by (cases "readContent st") auto
  show ?thesis
    using assms
    by (simp add: addPhoto_def rc Let_def photos_section_writeContent)
qed



lemma map_key_wire: "map position_key (map to_wire xs) = map position_key xs"
  by (simp add: position_key_wire)


lemma photoObj_key_fin: "sort_operand (photoObj f l (Fin n)) = Inr (Some n)"
  by (simp add: photoObj_def get_property_def js_or_def)

lemma photoObj_key_nan: "sort_operand (photoObj f l NaN) = Inr (Some 0)"
  by (simp add: photoObj_def get_property_def js_or_def)

lemma photoObj_comparable:
  "comparable (photoObj f l (Fin n))" "comparable (photoObj f l NaN)"
  by (simp_all add: comparable_def photoObj_key_fin photoObj_key_nan)

lemma photoObj_position_key: "position_key (photoObj f l (Fin n)) = n"
  "position_key (photoObj f l NaN) = 0"
  by (simp_all add: position_key_def photoObj_key_fin photoObj_key_nan)


lemma photos_array_initial: "photos_array (fst (snd (readContent initial_state))) = []"
  by (simp add: readContent_def initial_state_def photos_array_def get_property_def defaultContent_def)



lemma photoObj_wire:
  "to_wire (photoObj f l (Fin n)) = wire_photo f l (JNum (Fin n))"
  "to_wire (photoObj f l NaN) = wire_photo f l JNull"
  by (simp_all add: photoObj_def wire_photo_def)

text \<open>
  C8, as amended. When the photos already stored are ones the comparator makes numbers
  of, an upload whose position is missing or empty stores position 0, and an upload whose
  position has no leading integer (\<^verbatim>\<open>parseInt\<close> gives \<^verbatim>\<open>NaN\<close>) stores
  \<^verbatim>\<open>NaN\<close>, which the reply and the data file show as \<^verbatim>\<open>null\<close>. In both
  cases the call replies with the inserted photo, that photo is listed afterwards, it
  sorts as position 0, and the list is in order.
\<close>

theorem addPhoto_missing_or_non_numeric:
  assumes "filename req = Some fname"
    and "list_all comparable (photos_array (fst (snd (readContent st))))"
    and "position req = None \<or> position req = Some []
         \<or> (\<exists>s. position req = Some s \<and> parseInt s = Some NaN)"
  shows "\<exists>st' ps.
      addPhoto st req
        = Some (st', Inr (JObj [(''status'', JStr ''ok''),
            (''photo'', wire_photo fname (field_or (label req) ''Photo'')
               (if position req = None \<or> position req = Some [] then JNum (Fin 0) else JNull))]))
      \<and> snd (listPhotos st') = Val (JArr ps)
      \<and> wire_photo fname (field_or (label req) ''Photo'')
           (if position req = None \<or> position req = Some [] then JNum (Fin 0) else JNull) \<in> set ps
      \<and> position_key (wire_photo fname (field_or (label req) ''Photo'')
           (if position req = None \<or> position req = Some [] then JNum (Fin 0) else JNull)) = 0
      \<and> sorted (map position_key ps)"
proof -
  let ?pos = "if position req = None \<or> position req = Some [] then Fin 0 else NaN"
  let ?photo = "photoObj fname (field_or (label req) ''Photo'') ?pos"
  let ?old = "photos_array (fst (snd (readContent st)))"
  let ?sorted = "sort_key position_key (?old @ [?photo])"
  have parsed: "parseInt (field_or (position req) ''0'') = Some ?pos"
    using assms(3) by (auto simp: field_or_def parseInt_examples)
  have "list_all comparable (?old @ [?photo])"
    using assms(2) photoObj_comparable [of fname "field_or (label req) ''Photo''"] by simp
  then have sorted_ps: "sort_photos (?old @ [?photo]) = Some (Inr ?sorted)"
    by (rule sort_photos_comparable)
  from addPhoto_run [OF assms(1) parsed sorted_ps]
  obtain st' where run: "addPhoto st req
        = Some (st', Inr (JObj [(''status'', JStr ''ok''), (''photo'', to_wire ?photo)]))"
    and sec: "photos_section st' = Val (JArr (map to_wire ?sorted))"
    by blast
  have listed: "snd (listPhotos st') = Val (JArr (map to_wire ?sorted))"
    using listPhotos_array [OF sec] by (simp add: to_wire_idem)
  have member: "to_wire ?photo \<in> set (map to_wire ?sorted)"
    by simp
  have key: "position_key (to_wire ?photo) = 0"
    by (simp add: position_key_wire photoObj_position_key)
  have ordered: "sorted (map position_key (map to_wire ?sorted))"
    unfolding map_key_wire by (rule sorted_sort_key)
  have wire: "to_wire ?photo = wire_photo fname (field_or (label req) ''Photo'')
      (if position req = None \<or> position req = Some [] then JNum (Fin 0) else JNull)"
    by (simp add: photoObj_wire)
  from run listed member key ordered show ?thesis
    unfolding wire by blast
qed

theorem addPhoto_missing_or_non_numeric_witness:
  "(\<exists>st' ps. addPhoto initial_state (upload_with ''a.png'' (Some ''abc''))
        = Some (st', Inr (JObj [(''status'', JStr ''ok''),
            (''photo'', wire_photo ''a.png'' ''Photo'' JNull)]))
      \<and> snd (listPhotos st') = Val (JArr ps)
      \<and> wire_photo ''a.png'' ''Photo'' JNull \<in> set ps)
   \<and> (\<exists>st' ps. addPhoto initial_state (upload_with ''a.png'' None)
        = Some (st', Inr (JObj [(''status'', JStr ''ok''),
            (''photo'', wire_photo ''a.png'' ''Photo'' (JNum (Fin 0)))]))
      \<and> snd (listPhotos st') = Val (JArr ps)
      \<and> wire_photo ''a.png'' ''Photo'' (JNum (Fin 0)) \<in> set ps)"
proof -
  have old: "list_all comparable (photos_array (fst (snd (readContent initial_state))))"
    by (simp add: photos_array_initial)
  have "filename (upload_with ''a.png'' (Some ''abc'')) = Some ''a.png''"
    and "position (upload_with ''a.png'' (Some ''abc'')) = None
         \<or> position (upload_with ''a.png'' (Some ''abc'')) = Some []
         \<or> (\<exists>s. position (upload_with ''a.png'' (Some ''abc'')) = Some s \<and> parseInt s = Some NaN)"
    by (simp_all add: upload_with_def parseInt_examples)
  from addPhoto_missing_or_non_numeric [OF this(1) old this(2)]
  have first: "\<exists>st' ps. addPhoto initial_state (upload_with ''a.png'' (Some ''abc''))
        = Some (st', Inr (JObj [(''status'', JStr ''ok''),
            (''photo'', wire_photo ''a.png'' ''Photo'' JNull)]))
      \<and> snd (listPhotos st') = Val (JArr ps)
      \<and> wire_photo ''a.png'' ''Photo'' JNull \<in> set ps"
    by (simp add: upload_with_def field_or_def) blast
  have "filename (upload_with ''a.png'' None) = Some ''a.png''"
    and "position (upload_with ''a.png'' None) = None
         \<or> position (upload_with ''a.png'' None) = Some []
         \<or> (\<exists>s. position (upload_with ''a.png'' None) = Some s \<and> parseInt s = Some NaN)"
    by (simp_all add: upload_with_def)
  from addPhoto_missing_or_non_numeric [OF this(1) old this(2)]
  have second: "\<exists>st' ps. addPhoto initial_state (upload_with ''a.png'' None)
        = Some (st', Inr (JObj [(''status'', JStr ''ok''),
            (''photo'', wire_photo ''a.png'' ''Photo'' (JNum (Fin 0)))]))
      \<and> snd (listPhotos st') = Val (JArr ps)
      \<and> wire_photo ''a.png'' ''Photo'' (JNum (Fin 0)) \<in> set ps"
    by (simp add: upload_with_def field_or_def) blast
  from first second show ?thesis
    by blast
qed

text \<open>
  C8 as stated fails: with the position \<^verbatim>\<open>abc\<close> the photo in the reply and in the
  list carries \<^verbatim>\<open>null\<close>, not 0.
\<close>

theorem addPhoto_non_numeric_counterexample:
  "reply_of (addPhoto initial_state (upload_with ''a.png'' (Some ''abc'')))
     = Some (Inr (JObj [(''status'', JStr ''ok''), (''photo'', wire_photo ''a.png'' ''Photo'' JNull)]))
   \<and> listed_after (addPhoto initial_state (upload_with ''a.png'' (Some ''abc'')))
     = Some (Val (JArr [wire_photo ''a.png'' ''Photo'' JNull]))
   \<and> wire_photo ''a.png'' ''Photo'' JNull \<noteq> wire_photo ''a.png'' ''Photo'' (JNum (Fin 0))"
proof -
  have "sort_photos ([] @ [photoObj ''a.png'' ''Photo'' NaN])
      = Some (Inr [photoObj ''a.png'' ''Photo'' NaN])"
    by (simp add: sort_photos_def)
  with addPhoto_run [of "upload_with ''a.png'' (Some ''abc'')" "''a.png''" NaN initial_state
      "[photoObj ''a.png'' ''Photo'' NaN]"]
  obtain st' where run: "addPhoto initial_state (upload_with ''a.png'' (Some ''abc''))
        = Some (st', Inr (JObj [(''status'', JStr ''ok''),
            (''photo'', wire_photo ''a.png'' ''Photo'' JNull)]))"
    and sec: "photos_section st' = Val (JArr [wire_photo ''a.png'' ''Photo'' JNull])"
    by (auto simp: upload_with_def field_or_def parseInt_examples photos_array_initial photoObj_wire)
  have "snd (listPhotos st') = Val (JArr [wire_photo ''a.png'' ''Photo'' JNull])"
    using listPhotos_array [OF sec] by (simp add: wire_photo_def)
  with run show ?thesis
    by (simp add: reply_of_def listed_after_def wire_photo_def)
qed

section \<open>The admin key: results\<close>

lemma ADMIN_KEY_nonempty: "ADMIN_KEY env \<noteq> []"
  by (simp add: ADMIN_KEY_def split: option.split)

text \<open>
  C9. The key is accepted exactly when it is the string equal to the configured secret
  \<open>ADMIN_KEY\<close>; an absent key (\<open>Undefined\<close>) and any other value are refused. With
  the secret \<^verbatim>\<open>s3cret\<close>: the empty string, \<^verbatim>\<open>undefined\<close> and
  \<^verbatim>\<open>wrong\<close> are refused and \<^verbatim>\<open>s3cret\<close> is accepted. The test is a
  function of the secret and the key alone: it reads and returns no state.
\<close>

theorem authorize_exact:
  "authorize env key = (key = Val (JStr (ADMIN_KEY env)))
   \<and> authorize env Undefined = False
   \<and> authorize (Some ''s3cret'') (Val (JStr '''')) = False
   \<and> authorize (Some ''s3cret'') Undefined = False
   \<and> authorize (Some ''s3cret'') (Val (JStr ''wrong'')) = False
   \<and> authorize (Some ''s3cret'') (Val (JStr ''s3cret'')) = True"
proof -
  have general: "authorize e k = (k = Val (JStr (ADMIN_KEY e)))" for e k
    using ADMIN_KEY_nonempty [of e]
    by (auto simp: authorize_def strict_eq_str_def)
  have secret: "ADMIN_KEY (Some ''s3cret'') = ''s3cret''"
    by (simp add: ADMIN_KEY_def)
  show ?thesis
    by (simp add: general secret)
qed

end
